theory Spec2Isabelle
  imports Complex_Main "HOL-Library.Sublist"
begin

section \<open>Strings and buffers\<close>

text \<open>
  A JavaScript string is modelled by its UTF-8 bytes (\<^typ>\<open>string\<close>), which is also
  what \<^verbatim>\<open>Buffer.from(text)\<close> stores. The five characters that \<^verbatim>\<open>escapeXml\<close> looks
  for are ASCII, and no byte of a multi-byte UTF-8 sequence is ASCII, so a replacement of
  one of them acts on the bytes exactly as it acts on the UTF-16 code units.
  A \<^verbatim>\<open>Buffer\<close> is the list of its bytes.
\<close>

type_synonym buffer = string

section \<open>escapeXml\<close>

text \<open>
  \<^verbatim>\<open>text.replace(/c/g, r)\<close> for a one-character pattern \<open>c\<close> and a replacement
  \<open>r\<close> without \<^verbatim>\<open>$\<close>: every occurrence of \<open>c\<close>, left to right, becomes \<open>r\<close>.
\<close>

fun replaceAll :: "char \<Rightarrow> string \<Rightarrow> string \<Rightarrow> string" where
  "replaceAll c r [] = []"
| "replaceAll c r (x # xs) = (if x = c then r @ replaceAll c r xs else x # replaceAll c r xs)"

text \<open>
  \<^verbatim>\<open>escapeXml\<close> (footballGenerate.ts 177-184; the same text in movieGenerate and
  imageGenerate.ts): five replacements, the ampersand first.
\<close>

definition escapeXml :: "string \<Rightarrow> string" where
  "escapeXml text =
     replaceAll (CHR 0x27) ''&#39;''
       (replaceAll (CHR 0x22) ''&quot;''
         (replaceAll CHR ''>'' ''&gt;''
           (replaceAll CHR ''<'' ''&lt;''
             (replaceAll CHR ''&'' ''&amp;'' text))))"

text \<open>The markup-special characters, and the entity that stands for a character.\<close>

definition markupSpecial :: "char \<Rightarrow> bool" where
  "markupSpecial c =
     (c = CHR ''&'' \<or> c = CHR ''<'' \<or> c = CHR ''>'' \<or> c = CHR 0x22 \<or> c = CHR 0x27)"

definition entityOf :: "char \<Rightarrow> string" where
  "entityOf c =
     (if c = CHR ''&'' then ''&amp;''
      else if c = CHR ''<'' then ''&lt;''
      else if c = CHR ''>'' then ''&gt;''
      else if c = CHR 0x22 then ''&quot;''
      else if c = CHR 0x27 then ''&#39;''
      else [c])"

text \<open>
  The inverse entity substitution (not in the repository; it states the round trip): one
  pass, left to right, that turns each of the five entities back into its character and
  keeps every other character.
\<close>

fun unescapeXml :: "string \<Rightarrow> string" where
  "unescapeXml [] = []"
| "unescapeXml (c # cs) =
     (if c = CHR ''&'' then
        (if take 4 cs = ''amp;'' then CHR ''&'' # unescapeXml (drop 4 cs)
         else if take 3 cs = ''lt;'' then CHR ''<'' # unescapeXml (drop 3 cs)
         else if take 3 cs = ''gt;'' then CHR ''>'' # unescapeXml (drop 3 cs)
         else if take 5 cs = ''quot;'' then CHR 0x22 # unescapeXml (drop 5 cs)
         else if take 4 cs = ''#39;'' then CHR 0x27 # unescapeXml (drop 4 cs)
         else c # unescapeXml cs)
      else c # unescapeXml cs)"

text \<open>
  A text is well escaped when, read left to right, every ampersand starts one of the five
  entities and no other markup-special character occurs.
\<close>

fun wellEscaped :: "string \<Rightarrow> bool" where
  "wellEscaped [] = True"
| "wellEscaped (c # cs) =
     (if c = CHR ''&'' then
        (if take 4 cs = ''amp;'' then wellEscaped (drop 4 cs)
         else if take 3 cs = ''lt;'' then wellEscaped (drop 3 cs)
         else if take 3 cs = ''gt;'' then wellEscaped (drop 3 cs)
         else if take 5 cs = ''quot;'' then wellEscaped (drop 5 cs)
         else if take 4 cs = ''#39;'' then wellEscaped (drop 4 cs)
         else False)
      else (\<not> markupSpecial c \<and> wellEscaped cs))"

section \<open>Numbers in template literals\<close>

text \<open>
  \<^verbatim>\<open>`${n}`\<close> for a JavaScript number that is a non-negative integer (below \<open>10^21\<close>)
  is its decimal numeral.
\<close>

definition digitChar :: "nat \<Rightarrow> char" where
  "digitChar d = ''0123456789'' ! d"

fun showNat :: "nat \<Rightarrow> string" where
  "showNat n = (if n < 10 then [digitChar n] else showNat (n div 10) @ [digitChar (n mod 10)])"

declare showNat.simps [simp del]

definition showInt :: "int \<Rightarrow> string" where
  "showInt i = (if i < 0 then CHR ''-'' # showNat (nat (- i)) else showNat (nat i))"

section \<open>Paths (Node's path.join on POSIX)\<close>

text \<open>
  \<^verbatim>\<open>path.join\<close> is Node's: it joins its non-empty arguments with \<open>/\<close> and normalises
  the result. The normalisation walks the segments between slashes: an empty segment and
  \<open>.\<close> are dropped, \<open>..\<close> removes the segment before it (at the root of an absolute
  path it is dropped; in a relative path with nothing left to remove it is kept).
  \<open>normStep\<close> keeps the segments seen so far as a stack, the last one first.
\<close>

fun splitSlash :: "string \<Rightarrow> string list" where
  "splitSlash [] = [[]]"
| "splitSlash (c # cs) =
     (if c = CHR ''/'' then [] # splitSlash cs
      else (case splitSlash cs of [] \<Rightarrow> [[c]] | s # ss \<Rightarrow> (c # s) # ss))"

fun joinSlash :: "string list \<Rightarrow> string" where
  "joinSlash [] = []"
| "joinSlash [s] = s"
| "joinSlash (s # t # ss) = s @ ''/'' @ joinSlash (t # ss)"

definition normStep :: "bool \<Rightarrow> string list \<Rightarrow> string \<Rightarrow> string list" where
  "normStep allowAboveRoot res seg =
     (if seg = [] \<or> seg = ''.'' then res
      else if seg = ''..'' then
        (case res of
           [] \<Rightarrow> (if allowAboveRoot then [''..''] else [])
         | seg' # rest \<Rightarrow>
             (if seg' = ''..'' then (if allowAboveRoot then ''..'' # res else res) else rest))
      else seg # res)"

definition normalizeString :: "string \<Rightarrow> bool \<Rightarrow> string" where
  "normalizeString path allowAboveRoot =
     joinSlash (rev (foldl (normStep allowAboveRoot) [] (splitSlash path)))"

definition path_normalize :: "string \<Rightarrow> string" where
  "path_normalize path =
     (if path = [] then ''.''
      else
        (let isAbsolute = (hd path = CHR ''/'');
             trailingSeparator = (last path = CHR ''/'');
             p = normalizeString path (\<not> isAbsolute)
         in if p = [] then (if isAbsolute then ''/'' else if trailingSeparator then ''./'' else ''.'')
            else (if isAbsolute then ''/'' else []) @ p @ (if trailingSeparator then ''/'' else [])))"

definition path_join :: "string \<Rightarrow> string \<Rightarrow> string" where
  "path_join a b =
     (if a = [] \<and> b = [] then ''.''
      else if a = [] then path_normalize b
      else if b = [] then path_normalize a
      else path_normalize (a @ ''/'' @ b))"


section \<open>Errors, the environment and the world\<close>

text \<open>
  A thrown value: an \<^verbatim>\<open>Error\<close> with its message, or something that is not an
  \<^verbatim>\<open>Error\<close>. A promise that rejects, or a call that throws, is \<open>Inl\<close> of it.
\<close>

datatype jserror = JsError string | NonError

definition errorMessage :: "jserror \<Rightarrow> string" where
  "errorMessage error = (case error of JsError m \<Rightarrow> m | NonError \<Rightarrow> ''Unknown error'')"

text \<open>
  An HTTP response as node-fetch gives it: the status, and what reading the body
  (\<^verbatim>\<open>response.buffer()\<close>) gives. \<^verbatim>\<open>response.ok\<close> is a status in 200-299.
\<close>

datatype response = Response nat "jserror + buffer"

fun status :: "response \<Rightarrow> nat" where
  "status (Response st b) = st"

fun responseBuffer :: "response \<Rightarrow> jserror + buffer" where
  "responseBuffer (Response st b) = b"

definition ok :: "response \<Rightarrow> bool" where
  "ok r = (200 \<le> status r \<and> status r \<le> 299)"

text \<open>The request bodies, as the zod schemas type them.\<close>

record imageGeneration =
  logoUrl :: string
  contato :: "string option"
  whatsapp :: "string option"
  capaFilmeUrl :: string
  fundoUrl :: "string option"
  titulo :: string
  descricao :: string

record canal =
  channelName :: string
  logoUrl :: string

record jogo =
  timeHome :: string
  logoHomeUrl :: string
  timeAway :: string
  logoAwayUrl :: string
  horario :: string
  canais :: "canal list option"

record footballSchedule =
  logoEmpresaUrl :: string
  data :: string
  jogos :: "jogo list"
  corFundo :: "string option"
  fundoUrl :: "string option"
  whatsapp :: "string option"

text \<open>A JSON value, as a handler sends it.\<close>

datatype json =
  JStr string | JBool bool | JNum nat | JArr "json list" | JObj "(string \<times> json) list"

text \<open>
  A zod issue: the path of the value and what is wrong with it. \<^verbatim>\<open>footballScheduleSchema\<close>
  (footballGenerate.ts 25-50) on a body of the right JSON shape can raise two kinds: a
  string that is not a URL, and \<open>jogos\<close> longer than \<^verbatim>\<open>.max(5)\<close>.
\<close>

datatype issue = InvalidUrl "string list" | TooBig "string list" nat

text \<open>
  The environment: the libraries and the outside world, as functions. The three renderers
  (\<^verbatim>\<open>createFootballScheduleImage\<close> of footballGenerate.ts,
  \<^verbatim>\<open>createPromotionalImage\<close> of movieGenerate and of imageGenerate.ts) compose
  node-fetch and sharp calls over floating-point layout arithmetic; what each returns for a
  body and a resolution, with the assets the remote hosts serve, is a field here.
  \<open>puppeteer\<close> is \<open>None\<close> when the package is not installed, otherwise the screenshot of
  a page at a viewport. \<open>fetch\<close> and \<open>sharpResizePng\<close>
  (\<^verbatim>\<open>sharp(b).resize(w, h, {fit}).png().toBuffer()\<close>) are the calls of
  \<^verbatim>\<open>downloadImageWithFallback\<close>. \<open>isUrl\<close> is zod's \<^verbatim>\<open>z.string().url()\<close> check;
  \<open>toBase64\<close> is \<^verbatim>\<open>buffer.toString("base64")\<close>, \<open>toISOString\<close> is
  \<^verbatim>\<open>new Date(ms).toISOString()\<close>, \<open>extname\<close> is \<^verbatim>\<open>path.extname\<close>.
  \<open>numberToString\<close> prints a layout number in a template literal: the SVG overlay computes
  its positions and font sizes in floating point, which is modelled by exact arithmetic on
  \<^typ>\<open>rat\<close>, and no statement below depends on the value or the print of such a number.
  \<open>validation\<close> is what fastify-type-provider-zod puts in \<^verbatim>\<open>error.validation\<close> for the
  issues of a request that fails its schema.
\<close>

record env =
  cwd :: string
  fetch :: "string \<Rightarrow> jserror + response"
  sharpResizePng :: "buffer \<Rightarrow> int \<Rightarrow> int \<Rightarrow> string \<Rightarrow> jserror + buffer"
  createFootballScheduleImage :: "footballSchedule \<Rightarrow> nat \<Rightarrow> nat \<Rightarrow> jserror + buffer"
  createPromotionalImage :: "imageGeneration \<Rightarrow> nat \<Rightarrow> nat \<Rightarrow> jserror + buffer"
  createPromotionalImageLegacy :: "imageGeneration \<Rightarrow> nat \<Rightarrow> nat \<Rightarrow> jserror + buffer"
  puppeteer :: "(string \<Rightarrow> nat \<Rightarrow> nat \<Rightarrow> jserror + buffer) option"
  toBase64 :: "buffer \<Rightarrow> string"
  toISOString :: "nat \<Rightarrow> string"
  extname :: "string \<Rightarrow> string"
  toLowerCase :: "string \<Rightarrow> string"
  toUpperCase :: "string \<Rightarrow> string"
  isUrl :: "string \<Rightarrow> bool"
  numberToString :: "rat \<Rightarrow> string"
  validation :: "issue list \<Rightarrow> json"

text \<open>\<^verbatim>\<open>const UPLOADS_DIR = path.join(process.cwd(), "temp-images")\<close>\<close>

definition UPLOADS_DIR :: "env \<Rightarrow> string" where
  "UPLOADS_DIR e = path_join (cwd e) ''temp-images''"

text \<open>
  The world a handler changes: the files (path to content; directories and I/O failures
  other than a missing file are not modelled), the pending \<^verbatim>\<open>setTimeout\<close> callbacks
  (each the time it fires and the path it unlinks), and the clock in milliseconds
  (\<^verbatim>\<open>Date.now()\<close>). A handler runs at one instant of the clock.
\<close>

record world =
  files :: "string \<rightharpoonup> buffer"
  timers :: "(nat \<times> string) list"
  now :: nat



definition fs_writeFile :: "world \<Rightarrow> string \<Rightarrow> buffer \<Rightarrow> world" where
  "fs_writeFile w p b = w\<lparr>files := (files w)(p \<mapsto> b)\<rparr>"


definition setTimeout :: "world \<Rightarrow> string \<Rightarrow> nat \<Rightarrow> world" where
  "setTimeout w p delay = w\<lparr>timers := timers w @ [(now w + delay, p)]\<rparr>"



section \<open>Replies\<close>

datatype body = JsonBody json | BufferBody buffer | ErrorBody jserror

record reply =
  statusCode :: nat
  headers :: "(string \<times> string) list"
  body :: body

definition send :: "nat \<Rightarrow> json \<Rightarrow> reply" where
  "send c j = \<lparr>statusCode = c, headers = [], body = JsonBody j\<rparr>"

text \<open>The three outputs of a request, named as the handlers name them.\<close>

record 'a formats =
  landscape :: 'a
  portrait :: 'a
  square :: 'a

definition formatsJson :: "string formats \<Rightarrow> json" where
  "formatsJson f =
     JObj [(''landscape'', JStr (landscape f)), (''portrait'', JStr (portrait f)),
           (''square'', JStr (square f))]"

section \<open>The request, and the query flags\<close>

text \<open>
  What \<^verbatim>\<open>saveImageAndGetLink\<close> reads of the request. \<^verbatim>\<open>a || b\<close> is \<open>b\<close> when
  \<open>a\<close> is undefined or empty; an undefined value prints as \<^verbatim>\<open>undefined\<close>.
\<close>

record request =
  xForwardedProto :: "string option"
  xForwardedHost :: "string option"
  hostHeader :: "string option"
  socketEncrypted :: bool
  protocol :: string
  httpMethod :: string
  url :: string

definition truthy :: "string option \<Rightarrow> bool" where
  "truthy v = (case v of None \<Rightarrow> False | Some s \<Rightarrow> s \<noteq> [])"

definition printed :: "string option \<Rightarrow> string" where
  "printed v = (case v of None \<Rightarrow> ''undefined'' | Some s \<Rightarrow> s)"

text \<open>
  The query string as it arrives, and as \<^verbatim>\<open>footballQuerySchema\<close> /
  \<^verbatim>\<open>movieQuerySchema\<close> transform it: \<^verbatim>\<open>z.string().optional().transform((val) => val === "true")\<close>.
\<close>

record rawQuery =
  base64Param :: "string option"
  fileParam :: "string option"

record query =
  base64 :: bool
  file' :: bool

definition querySchema :: "rawQuery \<Rightarrow> query" where
  "querySchema q =
     \<lparr>base64 = (base64Param q = Some ''true''), file' = (fileParam q = Some ''true'')\<rparr>"

section \<open>Saving an artifact\<close>

text \<open>
  \<^verbatim>\<open>saveImageAndGetLink\<close> of footballGenerate.ts (711-731); movieGenerate (406-425) and
  footballGenerateHtml (553-572) hold the same text. \<^verbatim>\<open>ensureUploadsDir\<close> only creates a
  directory, which the world does not record. \<open>downloadUrl\<close> is the function's last three
  lines, the download URL built from the request.
\<close>

definition downloadUrl :: "request \<Rightarrow> string \<Rightarrow> string" where
  "downloadUrl request filename =
     (let protocol' =
            (if truthy (xForwardedProto request) then printed (xForwardedProto request)
             else if socketEncrypted request then ''https'' else ''http'');
          host =
            (if truthy (xForwardedHost request) then printed (xForwardedHost request)
             else printed (hostHeader request))
      in protocol' @ ''://'' @ host @ ''/api/download/'' @ filename)"

definition saveImageAndGetLink ::
  "env \<Rightarrow> world \<Rightarrow> buffer \<Rightarrow> string \<Rightarrow> request \<Rightarrow> world \<times> string" where
  "saveImageAndGetLink e w imageBuffer filename request =
     (let filePath = path_join (UPLOADS_DIR e) filename;
          w1 = fs_writeFile w filePath imageBuffer;
          w2 = setTimeout w1 filePath (60 * 60 * 1000)
      in (w2, downloadUrl request filename))"

text \<open>\<^verbatim>\<open>saveImageAndGetLink\<close> of imageGenerate.ts (442-461).\<close>

definition downloadUrlLegacy :: "request \<Rightarrow> string \<Rightarrow> string" where
  "downloadUrlLegacy request filename =
     (let protocol' = protocol request;
          host = printed (hostHeader request)
      in protocol' @ ''://'' @ host @ ''/api/download/'' @ filename)"

definition saveImageAndGetLinkLegacy ::
  "env \<Rightarrow> world \<Rightarrow> buffer \<Rightarrow> string \<Rightarrow> request \<Rightarrow> world \<times> string" where
  "saveImageAndGetLinkLegacy e w imageBuffer filename request =
     (let filepath = path_join (UPLOADS_DIR e) filename;
          w1 = fs_writeFile w filepath imageBuffer;
          w2 = setTimeout w1 filepath (30 * 60 * 1000)
      in (w2, downloadUrlLegacy request filename))"

section \<open>The generation handlers\<close>

text \<open>
  \<^verbatim>\<open>Promise.all\<close> of the three renders: the three results, or the rejection (of the
  first in the list that rejects).
\<close>

definition promiseAll3 ::
  "jserror + 'a \<Rightarrow> jserror + 'a \<Rightarrow> jserror + 'a \<Rightarrow> jserror + 'a formats" where
  "promiseAll3 a b c =
     (case a of Inl error \<Rightarrow> Inl error | Inr x \<Rightarrow>
      (case b of Inl error \<Rightarrow> Inl error | Inr y \<Rightarrow>
       (case c of Inl error \<Rightarrow> Inl error | Inr z \<Rightarrow>
          Inr \<lparr>landscape = x, portrait = y, square = z\<rparr>)))"

text \<open>
  The block every handler starts with: the resolutions
  \<^verbatim>\<open>landscape: {width: 1920, height: 1080}\<close>, \<^verbatim>\<open>portrait: {width: 1080, height: 1920}\<close>,
  \<^verbatim>\<open>square: {width: 1080, height: 1080}\<close>, and the three renders of the same body.
\<close>

definition footballImages :: "env \<Rightarrow> footballSchedule \<Rightarrow> jserror + buffer formats" where
  "footballImages e payload =
     promiseAll3 (createFootballScheduleImage e payload 1920 1080)
       (createFootballScheduleImage e payload 1080 1920)
       (createFootballScheduleImage e payload 1080 1080)"

definition movieImages :: "env \<Rightarrow> imageGeneration \<Rightarrow> jserror + buffer formats" where
  "movieImages e payload =
     promiseAll3 (createPromotionalImage e payload 1920 1080)
       (createPromotionalImage e payload 1080 1920)
       (createPromotionalImage e payload 1080 1080)"


definition dataUrl :: "env \<Rightarrow> buffer \<Rightarrow> string" where
  "dataUrl e imageBuffer = ''data:image/jpeg;base64,'' @ toBase64 e imageBuffer"

text \<open>
  POST /generate-football-schedule (footballGenerate.ts 747-818). \<open>sessionId\<close> is what
  \<^verbatim>\<open>randomUUID()\<close> returns in this request. \<open>useFile\<close> is computed and never read.
  \<open>payload\<close> is the source's \<^verbatim>\<open>data = request.body\<close>.
\<close>

definition generateFootballSchedule ::
  "env \<Rightarrow> string \<Rightarrow> world \<Rightarrow> request \<Rightarrow> query \<Rightarrow> footballSchedule \<Rightarrow> world \<times> reply" where
  "generateFootballSchedule e sessionId w request query payload =
     (let useBase64 = (base64 query = True);
          useFile = (file' query = True \<or> (\<not> base64 query \<and> \<not> file' query))
      in case footballImages e payload of
           Inl error \<Rightarrow>
             (w, send 500 (JObj
                [(''success'', JBool False), (''message'', JStr (errorMessage error)),
                 (''images'', formatsJson \<lparr>landscape = [], portrait = [], square = []\<rparr>)]))
         | Inr images \<Rightarrow>
             if useBase64 then
               (w, send 200 (JObj
                  [(''success'', JBool True),
                   (''images'', formatsJson
                      \<lparr>landscape = dataUrl e (landscape images),
                       portrait = dataUrl e (portrait images),
                       square = dataUrl e (square images)\<rparr>),
                   (''message'', JStr ''Football schedule images generated successfully (base64)'')]))
             else
               (let (w1, landscapeLink) =
                      saveImageAndGetLink e w (landscape images)
                        (''football_'' @ sessionId @ ''_landscape.jpg'') request;
                    (w2, portraitLink) =
                      saveImageAndGetLink e w1 (portrait images)
                        (''football_'' @ sessionId @ ''_portrait.jpg'') request;
                    (w3, squareLink) =
                      saveImageAndGetLink e w2 (square images)
                        (''football_'' @ sessionId @ ''_square.jpg'') request
                in (w3, send 200 (JObj
                      [(''success'', JBool True),
                       (''downloads'', formatsJson
                          \<lparr>landscape = landscapeLink, portrait = portraitLink,
                           square = squareLink\<rparr>),
                       (''message'',
                        JStr ''Football schedule images generated successfully (download links)''),
                       (''expiresIn'', JStr ''1 hour'')]))))"

text \<open>POST /generate-images (movieGenerate 442-512).\<close>

definition generateImages ::
  "env \<Rightarrow> string \<Rightarrow> world \<Rightarrow> request \<Rightarrow> query \<Rightarrow> imageGeneration \<Rightarrow> world \<times> reply" where
  "generateImages e sessionId w request query payload =
     (let useBase64 = (base64 query = True);
          useFile = (file' query = True \<or> (\<not> base64 query \<and> \<not> file' query))
      in case movieImages e payload of
           Inl error \<Rightarrow>
             (w, send 500 (JObj
                [(''success'', JBool False), (''message'', JStr (errorMessage error)),
                 (''images'', formatsJson \<lparr>landscape = [], portrait = [], square = []\<rparr>)]))
         | Inr images \<Rightarrow>
             if useBase64 then
               (w, send 200 (JObj
                  [(''success'', JBool True),
                   (''images'', formatsJson
                      \<lparr>landscape = dataUrl e (landscape images),
                       portrait = dataUrl e (portrait images),
                       square = dataUrl e (square images)\<rparr>),
                   (''message'', JStr ''Promotional images generated successfully (base64)'')]))
             else
               (let (w1, landscapeLink) =
                      saveImageAndGetLink e w (landscape images)
                        (''movie_'' @ sessionId @ ''_landscape.jpg'') request;
                    (w2, portraitLink) =
                      saveImageAndGetLink e w1 (portrait images)
                        (''movie_'' @ sessionId @ ''_portrait.jpg'') request;
                    (w3, squareLink) =
                      saveImageAndGetLink e w2 (square images)
                        (''movie_'' @ sessionId @ ''_square.jpg'') request
                in (w3, send 200 (JObj
                      [(''success'', JBool True),
                       (''downloads'', formatsJson
                          \<lparr>landscape = landscapeLink, portrait = portraitLink,
                           square = squareLink\<rparr>),
                       (''message'',
                        JStr ''Promotional images generated successfully (download links)''),
                       (''expiresIn'', JStr ''1 hour'')]))))"


section \<open>The markup document (footballGenerateHtml)\<close>

text \<open>
  A template literal is written out piece by piece: \<open>nl k\<close> is a line break followed by
  \<open>k\<close> tabs of indentation, and a character outside ASCII is its UTF-8 bytes.
\<close>

definition TAB :: char where
  "TAB = CHR 0x09"

definition tabs :: "nat \<Rightarrow> string" where
  "tabs k = replicate k TAB"

definition nl :: "nat \<Rightarrow> string" where
  "nl k = CHR 0x0A # tabs k"

definition WATERMARK_TEXT :: string where
  "WATERMARK_TEXT = ''app.notifique.net''"

definition WATERMARK_ENABLED :: bool where
  "WATERMARK_ENABLED = True"

text \<open>
  \<^verbatim>\<open>generateCSS\<close> (51-401) returns a fixed stylesheet with one interpolation, the
  \<^verbatim>\<open>background\<close> of \<^verbatim>\<open>body\<close>. \<open>cssBefore\<close> and \<open>cssAfter\<close> stand for the fixed text
  before and after it.
\<close>

definition backgroundImage :: "footballSchedule \<Rightarrow> string" where
  "backgroundImage d =
     (if truthy (fundoUrl d) then ''url('' @ [CHR 0x27] @ printed (fundoUrl d) @ [CHR 0x27] @ '')''
      else ''linear-gradient(135deg, ''
           @ (if truthy (corFundo d) then printed (corFundo d) else ''#1E3A8A'')
           @ '' 0%, #0F172A 100%)'')"

definition generateCSS :: "string \<Rightarrow> string \<Rightarrow> footballSchedule \<Rightarrow> string" where
  "generateCSS cssBefore cssAfter d = cssBefore @ backgroundImage d @ cssAfter"

text \<open>One item of \<^verbatim>\<open>jogo.canais.slice(0, 3).map(...)\<close> (435-443).\<close>

definition channelItemHTML :: "canal \<Rightarrow> string" where
  \<open>channelItemHTML canal =
     nl 6 @ ''<div class="channel-item" role="text">'' @ nl 7 @ ''<img src="'' @
     logoUrl canal @ ''" alt="Logo '' @ channelName canal @
     ''" class="channel-logo" />'' @ nl 7 @ ''<span class="channel-name">'' @
     channelName canal @ ''</span>'' @ nl 6 @ ''</div>'' @ nl 5\<close>

text \<open>The channels block of a game (429-449): empty without channels.\<close>

definition channelsHTML :: "jogo \<Rightarrow> string" where
  \<open>channelsHTML jogo =
     (case canais jogo of
        None \<Rightarrow> []
      | Some cs \<Rightarrow>
          if length cs > 0 then
            nl 4 @ ''<div class="channels" role="group" aria-label="Canais de transmiss'' @
            [CHR 0xC3, CHR 0xA3] @ ''o">'' @ nl 5 @
            concat (map channelItemHTML (take 3 cs)) @
            nl 5 @
            (if length cs > 3
             then ''<span class="more-channels">+'' @ showNat (length cs - 3) @ '' mais</span>''
             else []) @
            nl 4 @ ''</div>'' @ nl 3
          else [])\<close>

text \<open>
  One item of \<^verbatim>\<open>data.jogos.map((jogo, index) => ...)\<close> (408-456); \<open>n\<close> is
  \<^verbatim>\<open>data.jogos.length\<close>, and \<^verbatim>\<open>index < data.jogos.length - 1\<close> is written
  \<open>index + 1 < n\<close> (subtraction on \<^typ>\<open>nat\<close> stops at zero).
\<close>

definition gameHTML :: "env \<Rightarrow> nat \<Rightarrow> nat \<Rightarrow> jogo \<Rightarrow> string" where
  \<open>gameHTML e n index jogo =
     nl 2 @ ''<article class="game-card" aria-label="Jogo '' @ showNat (index + 1) @ ''">'' @ nl 3 @
     ''<div class="time-display" role="text" aria-label="Hor'' @ [CHR 0xC3, CHR 0xA1] @
     ''rio do jogo">'' @ nl 4 @ horario jogo @ nl 3 @ ''</div>'' @ nl 3 @ nl 3 @
     ''<div class="teams" role="group" aria-label="Times do jogo">'' @ nl 4 @
     ''<div class="team home" role="group" aria-label="Time da casa">'' @ nl 5 @
     ''<img src="'' @ logoHomeUrl jogo @ ''" alt="Logo '' @ timeHome jogo @
     ''" class="team-logo" />'' @ nl 5 @ ''<h3 class="team-name">'' @
     toUpperCase e (timeHome jogo) @ ''</h3>'' @ nl 4 @ ''</div>'' @ nl 4 @ nl 4 @
     ''<div class="vs" role="text" aria-label="versus">'' @ [CHR 0xC3, CHR 0x97] @ ''</div>'' @
     nl 4 @ nl 4 @ ''<div class="team away" role="group" aria-label="Time visitante">'' @
     nl 5 @ ''<h3 class="team-name">'' @ toUpperCase e (timeAway jogo) @ ''</h3>'' @ nl 5 @
     ''<img src="'' @ logoAwayUrl jogo @ ''" alt="Logo '' @ timeAway jogo @
     ''" class="team-logo" />'' @ nl 4 @ ''</div>'' @ nl 3 @ ''</div>'' @ nl 3 @ nl 3 @
     channelsHTML jogo @
     nl 2 @ ''</article>'' @ nl 2 @
     (if WATERMARK_ENABLED \<and> index + 1 < n
      then ''<div class="watermark between-games" aria-hidden="true">'' @
           [CHR 0xE2, CHR 0x80, CHR 0xA2] @ '' '' @ WATERMARK_TEXT @ '' '' @
           [CHR 0xE2, CHR 0x80, CHR 0xA2] @ ''</div>''
      else []) @
     nl 1\<close>

text \<open>\<^verbatim>\<open>.map(...).join("")\<close> over the games with their indices.\<close>

fun gamesHTMLFrom :: "env \<Rightarrow> nat \<Rightarrow> nat \<Rightarrow> jogo list \<Rightarrow> string" where
  "gamesHTMLFrom e n index [] = []"
| "gamesHTMLFrom e n index (jogo # rest) = gameHTML e n index jogo @ gamesHTMLFrom e n (index + 1) rest"

text \<open>\<^verbatim>\<open>generateHTML\<close> (404-512).\<close>

definition generateHTML :: "env \<Rightarrow> string \<Rightarrow> string \<Rightarrow> footballSchedule \<Rightarrow> string" where
  \<open>generateHTML e cssBefore cssAfter d =
     (let css = generateCSS cssBefore cssAfter d;
          gamesHTML = gamesHTMLFrom e (length (jogos d)) 0 (jogos d)
      in
     nl 2 @ ''<!DOCTYPE html>'' @ nl 2 @ ''<html lang="pt-BR">'' @ nl 2 @ ''<head>'' @ nl 3 @
     ''<meta charset="UTF-8">'' @ nl 3 @
     ''<meta name="viewport" content="width=device-width, initial-scale=1.0">'' @ nl 3 @
     ''<title>Jogos do Dia - '' @ data d @ ''</title>'' @ nl 3 @ ''<style>'' @ css @
     ''</style>'' @ nl 2 @ ''</head>'' @ nl 2 @ ''<body>'' @ nl 3 @
     ''<main class="container">'' @ nl 4 @ ''<header class="header">'' @ nl 5 @
     ''<h1 class="title">JOGOS DO DIA</h1>'' @ nl 5 @ ''<time class="date" datetime="'' @
     data d @ ''">'' @ data d @ ''</time>'' @ nl 4 @ ''</header>'' @ nl 4 @
     nl 4 @ ''<section class="games" aria-label="Lista de jogos">'' @ nl 5 @
     ''<!-- Large background watermark behind games -->'' @ nl 5 @
     (if WATERMARK_ENABLED
      then ''<div class="watermark behind-games" aria-hidden="true">'' @ WATERMARK_TEXT @ ''</div>''
      else []) @
     nl 5 @ gamesHTML @ nl 4 @ ''</section>'' @ nl 4 @ nl 4 @
     (if truthy (whatsapp d)
      then nl 5 @ ''<aside class="contact" aria-label="Contato WhatsApp">'' @ nl 6 @ ''<span>'' @
           [CHR 0xF0, CHR 0x9F, CHR 0x93, CHR 0xB1] @ ''</span>'' @ nl 6 @ ''<span>'' @
           printed (whatsapp d) @ ''</span>'' @ nl 5 @ ''</aside>'' @ nl 4
      else []) @
     nl 4 @ nl 4 @ ''<!-- Company logo positioned absolutely in top-right -->'' @ nl 4 @
     ''<img src="'' @ logoEmpresaUrl d @
     ''" alt="Logo da empresa" class="company-logo" />'' @ nl 3 @ ''</main>'' @ nl 3 @ nl 3 @
     (if WATERMARK_ENABLED
      then nl 4 @ ''<!-- Multiple watermarks positioned strategically -->'' @ nl 4 @
           ''<div class="watermark bottom-center" aria-hidden="true">'' @ WATERMARK_TEXT @
           ''</div>'' @ nl 4 @ ''<div class="watermark top-left" aria-hidden="true">'' @
           WATERMARK_TEXT @ ''</div>'' @ nl 4 @
           ''<div class="watermark middle-left" aria-hidden="true">'' @ WATERMARK_TEXT @
           ''</div>'' @ nl 4 @ ''<div class="watermark middle-right" aria-hidden="true">'' @
           WATERMARK_TEXT @ ''</div>'' @ nl 4 @
           ''<div class="watermark diagonal-1" aria-hidden="true">'' @ WATERMARK_TEXT @
           ''</div>'' @ nl 4 @ ''<div class="watermark diagonal-2" aria-hidden="true">'' @
           WATERMARK_TEXT @ ''</div>'' @ nl 3
      else []) @
     nl 2 @ ''</body>'' @ nl 2 @ ''</html>'' @ nl 1)\<close>



section \<open>The SVG overlay (footballGenerate.ts)\<close>

type_synonym number = rat

text \<open>\<^verbatim>\<open>createGameCard\<close> (186-204), with its default \<^verbatim>\<open>gameHeight = 120\<close> at the call.\<close>

definition createGameCard :: "env \<Rightarrow> number \<Rightarrow> number \<Rightarrow> nat \<Rightarrow> number \<Rightarrow> string" where
  \<open>createGameCard e width gameY gameIndex gameHeight =
     nl 2 @ ''<defs>'' @ nl 3 @ ''<linearGradient id="gameGrad'' @ showNat gameIndex @
     ''" x1="0%" y1="0%" x2="100%" y2="0%">'' @ nl 4 @
     ''<stop offset="0%" style="stop-color:rgba(0,0,0,0.6);stop-opacity:1" />'' @ nl 4 @
     ''<stop offset="50%" style="stop-color:rgba(0,0,0,0.8);stop-opacity:1" />'' @ nl 4 @
     ''<stop offset="100%" style="stop-color:rgba(0,0,0,0.6);stop-opacity:1" />'' @ nl 3 @
     ''</linearGradient>'' @ nl 3 @ ''<filter id="gameShadow'' @ showNat gameIndex @
     ''" x="-10%" y="-10%" width="120%" height="120%">'' @ nl 4 @
     ''<feDropShadow dx="0" dy="6" stdDeviation="8" flood-color="rgba(0,0,0,0.5)"/>'' @ nl 3 @
     ''</filter>'' @ nl 2 @ ''</defs>'' @ nl 2 @ ''<rect x="'' @
     numberToString e (width * (5 / 100)) @ ''" y="'' @
     numberToString e (gameY - 10) @ ''" width="'' @ numberToString e (width * (9 / 10)) @
     ''" height="'' @ numberToString e gameHeight @
     ''" '' @ nl 3 @ ''  rx="25" fill="url(#gameGrad'' @ showNat gameIndex @
     '')" stroke="rgba(0,255,65,0.4)" stroke-width="2" '' @ nl 3 @
     ''  filter="url(#gameShadow'' @ showNat gameIndex @ '')"/>'' @ nl 1\<close>

text \<open>\<^verbatim>\<open>createTimeDisplay\<close> (207-214).\<close>

definition createTimeDisplay :: "env \<Rightarrow> number \<Rightarrow> number \<Rightarrow> string \<Rightarrow> number \<Rightarrow> string" where
  \<open>createTimeDisplay e centerX gameY horario' timeFontSize =
     nl 2 @ ''<rect x="'' @ numberToString e (centerX - 60) @ ''" y="'' @
     numberToString e (gameY + 5) @
     ''" width="120" height="35" rx="18" '' @ nl 3 @
     ''  fill="linear-gradient(45deg, #ffff00, #ffd700)" stroke="rgba(0,0,0,0.3)" stroke-width="2"/>'' @
     nl 2 @ ''<text x="'' @ numberToString e centerX @ ''" y="'' @
     numberToString e (gameY + 28) @ ''" font-size="'' @
     numberToString e timeFontSize @ ''" '' @ nl 3 @ ''  class="time" text-anchor="middle">'' @
     escapeXml horario' @ ''</text>'' @ nl 1\<close>

text \<open>\<^verbatim>\<open>createTeamDisplay\<close> (217-232).\<close>

datatype alignment = Left | Center | Right

definition createTeamDisplay ::
  "env \<Rightarrow> string \<Rightarrow> number \<Rightarrow> number \<Rightarrow> number \<Rightarrow> alignment \<Rightarrow> string" where
  \<open>createTeamDisplay e teamName x y teamFontSize alignment =
     (let textAnchor =
            (if alignment = Left then ''start'' else if alignment = Right then ''end''
             else ''middle'')
      in nl 2 @ ''<text x="'' @ numberToString e x @ ''" y="'' @ numberToString e y @
         ''" font-size="'' @ numberToString e teamFontSize @
         ''" class="team" text-anchor="'' @ textAnchor @ ''">'' @ nl 3 @
         escapeXml (toUpperCase e teamName) @ nl 2 @ ''</text>'' @ nl 1)\<close>

text \<open>\<^verbatim>\<open>createVsSymbol\<close> (235-239).\<close>

definition createVsSymbol :: "env \<Rightarrow> number \<Rightarrow> number \<Rightarrow> number \<Rightarrow> string" where
  \<open>createVsSymbol e centerX gameY teamFontSize =
     nl 2 @ ''<text x="'' @ numberToString e centerX @ ''" y="'' @
     numberToString e (gameY + 70) @ ''" font-size="'' @
     numberToString e (teamFontSize * (11 / 10)) @ ''" class="vs" text-anchor="middle">'' @
     [CHR 0xC3, CHR 0x97] @ ''</text>'' @ nl 1\<close>

text \<open>
  \<^verbatim>\<open>createChannelDisplay\<close> (242-288). \<open>channelTexts\<close> is its \<^verbatim>\<open>for\<close> loop over the
  first \<^verbatim>\<open>maxChannelsToShow\<close> channels, from index \<open>i\<close> on.
\<close>

fun channelTexts :: "env \<Rightarrow> number \<Rightarrow> number \<Rightarrow> number \<Rightarrow> nat \<Rightarrow> canal list \<Rightarrow> string" where
  \<open>channelTexts e startX gameY channelFontSize i [] = []\<close>
| \<open>channelTexts e startX gameY channelFontSize i (c # cs) =
     (let textX = startX + of_nat i * 85 + 20 + 5
      in nl 3 @ ''<text x="'' @ numberToString e textX @ ''" y="'' @
         numberToString e (gameY + 128) @ ''" font-size="'' @
         numberToString e (channelFontSize * (8 / 10)) @
         ''" class="channel" text-anchor="start">'' @ nl 4 @
         escapeXml (channelName c) @ nl 3 @ ''</text>'' @ nl 2)
     @ channelTexts e startX gameY channelFontSize (i + 1) cs\<close>

definition createChannelDisplay ::
  "env \<Rightarrow> number \<Rightarrow> number \<Rightarrow> canal list \<Rightarrow> number \<Rightarrow> string" where
  \<open>createChannelDisplay e centerX gameY canais' channelFontSize =
     (if length canais' = 0 then []
      else
        (let maxChannelsToShow = min (length canais') 3;
             channelLogoSize = (20 :: number);
             estimatedPairWidth = channelLogoSize + 5 + 60;
             totalWidth = of_nat maxChannelsToShow * estimatedPairWidth;
             startX = centerX - totalWidth / 2;
             boxWidth = max 200 (totalWidth + 20)
         in nl 2 @ ''<rect x="'' @ numberToString e (centerX - boxWidth / 2) @ ''" y="'' @
            numberToString e (gameY + 110) @
            ''" width="'' @ numberToString e boxWidth @ ''" height="28" rx="14" '' @ nl 3 @
            ''  fill="rgba(0,0,0,0.9)" stroke="rgba(255,255,255,0.3)" stroke-width="1"/>'' @ nl 1
            @ channelTexts e startX gameY channelFontSize 0 (take maxChannelsToShow canais')
            @ (if length canais' > maxChannelsToShow then
                 (let moreText = ''+'' @ showNat (length canais' - maxChannelsToShow)
                  in nl 3 @ ''<text x="'' @
                     numberToString e (startX + of_nat maxChannelsToShow * estimatedPairWidth) @
                     ''" y="'' @ numberToString e (gameY + 128) @ ''" font-size="'' @
                     numberToString e (channelFontSize * (8 / 10)) @
                     ''" class="channel" text-anchor="start">'' @ nl 4 @ moreText @ nl 3 @
                     ''</text>'' @ nl 2)
               else [])))\<close>

text \<open>\<^verbatim>\<open>createHeader\<close> (291-309).\<close>

definition createHeader :: "env \<Rightarrow> number \<Rightarrow> string \<Rightarrow> number \<Rightarrow> number \<Rightarrow> number \<Rightarrow> string" where
  \<open>createHeader e width data' titleFontSize dateFontSize topMargin =
     nl 2 @ ''<!-- Main title "JOGOS DO DIA" centered at top -->'' @ nl 2 @ ''<text x="'' @
     numberToString e (width / 2) @ ''" y="'' @ numberToString e topMargin @
     ''" font-size="'' @ numberToString e titleFontSize @
     ''" class="main-title" text-anchor="middle">JOGOS DO DIA</text>'' @ nl 2 @ nl 2 @
     ''<!-- Date centered below title -->'' @ nl 2 @ ''<text x="'' @
     numberToString e (width / 2) @ ''" y="'' @
     numberToString e (topMargin + 60) @ ''" font-size="'' @ numberToString e dateFontSize @
     ''" class="date-title" text-anchor="middle">'' @ escapeXml data' @ ''</text>'' @ nl 1\<close>

text \<open>\<^verbatim>\<open>createContactSection\<close> (312-320).\<close>

definition createContactSection :: "env \<Rightarrow> number \<Rightarrow> number \<Rightarrow> string \<Rightarrow> number \<Rightarrow> string" where
  \<open>createContactSection e width contactY whatsapp' contactFontSize =
     nl 2 @ ''<rect x="'' @ numberToString e (width * (5 / 100)) @ ''" y="'' @
     numberToString e contactY @ ''" width="'' @
     numberToString e (width * (9 / 10)) @ ''" height="80" rx="40" '' @ nl 3 @
     ''  fill="linear-gradient(45deg, #25d366, #128c7e)" stroke="rgba(255,255,255,0.4)" stroke-width="3"/>'' @
     nl 2 @ ''<text x="'' @ numberToString e (width / 2) @ ''" y="'' @
     numberToString e (contactY + 50) @ ''" font-size="'' @
     numberToString e contactFontSize @ ''" class="contact" text-anchor="middle">'' @ nl 3 @
     [CHR 0xF0, CHR 0x9F, CHR 0x93, CHR 0xB1] @ '' '' @ escapeXml whatsapp' @ nl 2 @
     ''</text>'' @ nl 1\<close>

text \<open>\<^verbatim>\<open>createWatermark\<close> (323-330).\<close>

definition createWatermark :: "env \<Rightarrow> number \<Rightarrow> number \<Rightarrow> number \<Rightarrow> string" where
  \<open>createWatermark e width height watermarkFontSize =
     (let watermarkY = height - 30
      in nl 2 @ ''<text x="'' @ numberToString e (width / 2) @ ''" y="'' @
         numberToString e watermarkY @ ''" font-size="'' @
         numberToString e watermarkFontSize @ ''" class="watermark" text-anchor="middle">'' @
         nl 3 @ escapeXml WATERMARK_TEXT @ nl 2 @ ''</text>'' @ nl 1)\<close>

text \<open>\<^verbatim>\<open>createGameSection\<close> (333-367).\<close>

definition createGameSection ::
  "env \<Rightarrow> number \<Rightarrow> number \<Rightarrow> nat \<Rightarrow> jogo \<Rightarrow> number \<Rightarrow> number \<Rightarrow> number \<Rightarrow> string" where
  "createGameSection e width gameY gameIndex jogo teamFontSize timeFontSize channelFontSize =
     (let centerX = width / 2
      in createGameCard e width gameY gameIndex 120
         @ createTimeDisplay e centerX gameY (horario jogo) timeFontSize
         @ createTeamDisplay e (timeHome jogo) (width * (18 / 100)) (gameY + 65) teamFontSize Left
         @ createVsSymbol e centerX gameY teamFontSize
         @ createTeamDisplay e (timeAway jogo) (width * (82 / 100)) (gameY + 65) teamFontSize Right
         @ (case canais jogo of
              None \<Rightarrow> []
            | Some cs \<Rightarrow>
                if length cs > 0 then createChannelDisplay e centerX gameY cs channelFontSize
                else []))"

text \<open>
  \<^verbatim>\<open>createFootballScheduleOverlay\<close> (370-472). \<open>gameSections\<close> is its
  \<^verbatim>\<open>jogos.forEach((jogo, index) => ...)\<close>, from index \<open>index\<close> on.
\<close>

fun gameSections ::
  "env \<Rightarrow> number \<Rightarrow> number \<Rightarrow> number \<Rightarrow> number \<Rightarrow> nat \<Rightarrow> jogo list \<Rightarrow> string" where
  "gameSections e width teamFontSize timeFontSize channelFontSize index [] = []"
| "gameSections e width teamFontSize timeFontSize channelFontSize index (jogo # rest) =
     (let gameStartY = (200 :: number);
          gameSpacing = (180 :: number);
          gameY = gameStartY + of_nat index * gameSpacing
      in createGameSection e width gameY index jogo teamFontSize timeFontSize channelFontSize)
     @ gameSections e width teamFontSize timeFontSize channelFontSize (index + 1) rest"

definition overlayStyle :: string where
  \<open>overlayStyle =
     nl 3 @ ''<defs>'' @ nl 4 @ ''<style>'' @ nl 5 @
     ''.main-title { '' @ nl 6 @ ''font-family: '' @ [CHR 0x27] @ ''Arial Black'' @ [CHR 0x27] @
     '', Arial, sans-serif; '' @ nl 6 @ ''font-weight: 900; '' @ nl 6 @ ''fill: #00ff41; '' @
     nl 6 @ ''text-shadow: 3px 3px 6px rgba(0,0,0,0.8);'' @ nl 6 @ ''letter-spacing: 3px;'' @
     nl 5 @ ''}'' @ nl 5 @ ''.date-title { '' @ nl 6 @ ''font-family: '' @ [CHR 0x27] @
     ''Arial Black'' @ [CHR 0x27] @ '', Arial, sans-serif; '' @ nl 6 @ ''font-weight: 900; '' @
     nl 6 @ ''fill: white; '' @ nl 6 @ ''text-shadow: 2px 2px 4px rgba(0,0,0,0.8);'' @ nl 6 @
     ''letter-spacing: 2px;'' @ nl 5 @ ''}'' @ nl 5 @ ''.team { '' @ nl 6 @ ''font-family: '' @
     [CHR 0x27] @ ''Arial Black'' @ [CHR 0x27] @ '', Arial, sans-serif; '' @ nl 6 @
     ''font-weight: 900; '' @ nl 6 @ ''fill: white; '' @ nl 6 @
     ''text-shadow: 2px 2px 4px rgba(0,0,0,0.8);'' @ nl 6 @ ''letter-spacing: 1.5px;'' @ nl 5 @
     ''}'' @ nl 5 @ ''.time { '' @ nl 6 @ ''font-family: '' @ [CHR 0x27] @ ''Arial Black'' @
     [CHR 0x27] @ '', Arial, sans-serif; '' @ nl 6 @ ''font-weight: 900; '' @ nl 6 @
     ''fill: #000; '' @ nl 6 @ ''text-shadow: 1px 1px 2px rgba(255,255,255,0.3);'' @ nl 5 @
     ''}'' @ nl 5 @ ''.channel { '' @ nl 6 @ ''font-family: Arial, sans-serif; '' @ nl 6 @
     ''fill: white; '' @ nl 6 @ ''font-weight: 700;'' @ nl 6 @
     ''text-shadow: 1px 1px 2px rgba(0,0,0,0.8);'' @ nl 5 @ ''}'' @ nl 5 @ ''.vs { '' @ nl 6 @
     ''font-family: '' @ [CHR 0x27] @ ''Arial Black'' @ [CHR 0x27] @ '', Arial, sans-serif; '' @
     nl 6 @ ''font-weight: 900; '' @ nl 6 @ ''fill: #00ff41; '' @ nl 6 @
     ''text-shadow: 2px 2px 4px rgba(0,0,0,0.8);'' @ nl 5 @ ''}'' @ nl 5 @ ''.contact { '' @
     nl 6 @ ''font-family: '' @ [CHR 0x27] @ ''Arial Black'' @ [CHR 0x27] @
     '', Arial, sans-serif; '' @ nl 6 @ ''fill: white; '' @ nl 6 @ ''font-weight: 900;'' @ nl 6 @
     ''text-shadow: 2px 2px 4px rgba(0,0,0,0.8);'' @ nl 6 @ ''letter-spacing: 1px;'' @ nl 5 @
     ''}'' @ nl 5 @ ''.watermark { '' @ nl 6 @ ''font-family: Arial, sans-serif; '' @ nl 6 @
     ''fill: rgba(255,255,255,0.6); '' @ nl 6 @ ''font-weight: 500;'' @ nl 5 @ ''}'' @ nl 4 @
     ''</style>'' @ nl 3 @ ''</defs>'' @ nl 1\<close>

definition createFootballScheduleOverlay ::
  "env \<Rightarrow> number \<Rightarrow> number \<Rightarrow> string \<Rightarrow> jogo list \<Rightarrow> string option \<Rightarrow> string" where
  \<open>createFootballScheduleOverlay e width height data' jogos' whatsapp' =
     (let titleFontSize = min (width * (12 / 100)) 80;
          dateFontSize = min (width * (8 / 100)) 60;
          teamFontSize = min (width * (6 / 100)) 45;
          timeFontSize = min (width * (5 / 100)) 38;
          channelFontSize = min (width * (4 / 100)) 30;
          contactFontSize = min (width * (7 / 100)) 50;
          watermarkFontSize = min (width * (3 / 100)) 24;
          topMargin = (80 :: number);
          gameStartY = (200 :: number);
          gameSpacing = (180 :: number);
          contactY = gameStartY + of_nat (length jogos') * gameSpacing + 60
      in nl 2 @ ''<svg width="'' @ numberToString e width @ ''" height="'' @
         numberToString e height @ ''" xmlns="http://www.w3.org/2000/svg">'' @ overlayStyle
         @ createHeader e width data' titleFontSize dateFontSize topMargin
         @ gameSections e width teamFontSize timeFontSize channelFontSize 0 jogos'
         @ (if truthy whatsapp'
            then createContactSection e width contactY (printed whatsapp') contactFontSize
            else [])
         @ (if WATERMARK_ENABLED then createWatermark e width height watermarkFontSize else [])
         @ ''</svg>'')\<close>

text \<open>
  The markup delimiters of a text, in order; and a request's text fields replaced by
  fixed ones (the shape of the request, which the layout depends on, is kept).
\<close>

definition delimiter :: "char \<Rightarrow> bool" where
  "delimiter c = (c = CHR ''<'' \<or> c = CHR ''>'' \<or> c = CHR 0x22 \<or> c = CHR 0x27)"

definition delimiters :: "string \<Rightarrow> string" where
  "delimiters s = filter delimiter s"

definition blankCanal :: "canal \<Rightarrow> canal" where
  "blankCanal c = c\<lparr>channelName := []\<rparr>"

definition blankJogo :: "jogo \<Rightarrow> jogo" where
  "blankJogo j =
     j\<lparr>timeHome := [], timeAway := [], horario := [],
       canais := map_option (map blankCanal) (canais j)\<rparr>"

definition blankText :: "string option \<Rightarrow> string option" where
  "blankText v = (if truthy v then Some ''x'' else None)"

section \<open>The download handlers\<close>




section \<open>Fetching an asset\<close>

text \<open>
  \<^verbatim>\<open>createPlaceholderImage\<close> (footballGenerate.ts 112-119; movieGenerate 95-101): an SVG
  document built from a template; nothing in it can throw. Width and height are integers.
\<close>

definition createPlaceholderImage :: "int \<Rightarrow> int \<Rightarrow> string \<Rightarrow> string \<Rightarrow> buffer" where
  \<open>createPlaceholderImage width height color text =
     ''<svg width="'' @ showInt width @ ''" height="'' @ showInt height @
     ''" xmlns="http://www.w3.org/2000/svg">'' @ nl 2 @
     ''<rect width="100%" height="100%" fill="'' @ color @ ''"/>'' @ nl 2 @
     ''<text x="50%" y="50%" font-family="Arial" font-size="20" fill="white" text-anchor="middle" dy=".3em">'' @
     text @ ''</text>'' @ nl 1 @ ''</svg>''\<close>

text \<open>
  \<^verbatim>\<open>downloadImageWithFallback\<close> (footballGenerate.ts 121-138; movieGenerate 104-121):
  the \<^verbatim>\<open>try\<close> block first, then the \<^verbatim>\<open>catch\<close> on whatever it threw.
\<close>

definition downloadAndResize :: "env \<Rightarrow> string \<Rightarrow> int \<Rightarrow> int \<Rightarrow> jserror + buffer" where
  "downloadAndResize e url' width height =
     (case fetch e url' of
        Inl error \<Rightarrow> Inl error
      | Inr response \<Rightarrow>
          if \<not> ok response then Inl (JsError (''HTTP '' @ showNat (status response)))
          else (case responseBuffer response of
                  Inl error \<Rightarrow> Inl error
                | Inr buffer \<Rightarrow> sharpResizePng e buffer width height ''cover''))"

definition downloadImageWithFallback ::
  "env \<Rightarrow> string \<Rightarrow> int \<Rightarrow> int \<Rightarrow> string \<Rightarrow> jserror + buffer" where
  "downloadImageWithFallback e url' width height fallbackText =
     (case downloadAndResize e url' width height of
        Inr resized \<Rightarrow> Inr resized
      | Inl error \<Rightarrow> Inr (createPlaceholderImage width height ''#666666'' fallbackText))"

section \<open>Validation and the error handler\<close>

definition urlIssue :: "env \<Rightarrow> string list \<Rightarrow> string \<Rightarrow> issue list" where
  "urlIssue e path v = (if isUrl e v then [] else [InvalidUrl path])"

definition canalIssues :: "env \<Rightarrow> string list \<Rightarrow> canal \<Rightarrow> issue list" where
  "canalIssues e path c = urlIssue e (path @ [''logoUrl'']) (logoUrl c)"

fun indexed :: "nat \<Rightarrow> 'a list \<Rightarrow> (nat \<times> 'a) list" where
  "indexed i [] = []"
| "indexed i (x # xs) = (i, x) # indexed (i + 1) xs"

definition jogoIssues :: "env \<Rightarrow> string list \<Rightarrow> jogo \<Rightarrow> issue list" where
  "jogoIssues e path j =
     urlIssue e (path @ [''logoHomeUrl'']) (logoHomeUrl j)
     @ urlIssue e (path @ [''logoAwayUrl'']) (logoAwayUrl j)
     @ (case canais j of
          None \<Rightarrow> []
        | Some cs \<Rightarrow>
            concat (map (\<lambda>(i, c). canalIssues e (path @ [''canais'', showNat i]) c) (indexed 0 cs)))"

definition footballScheduleSchema :: "env \<Rightarrow> footballSchedule \<Rightarrow> issue list" where
  "footballScheduleSchema e d =
     urlIssue e [''logoEmpresaUrl''] (logoEmpresaUrl d)
     @ (if length (jogos d) > 5 then [TooBig [''jogos''] 5] else [])
     @ concat (map (\<lambda>(i, j). jogoIssues e [''jogos'', showNat i] j) (indexed 0 (jogos d)))
     @ (case fundoUrl d of None \<Rightarrow> [] | Some u \<Rightarrow> urlIssue e [''fundoUrl''] u)"

text \<open>
  What reaches \<^verbatim>\<open>app.setErrorHandler\<close> (index.ts 66-101), and the handler: a zod
  validation error of the request, with its \<^verbatim>\<open>error.validation\<close>, is answered 400; a
  response serialization error, with its \<^verbatim>\<open>error.cause.issues\<close>, \<^verbatim>\<open>error.method\<close> and
  \<^verbatim>\<open>error.url\<close>, and a bad status code are answered 500; any other error is sent as it
  is, which Fastify answers with 500 when the error carries no status code of its own.
\<close>

datatype appError =
  SchemaValidationError json
| ResponseSerializationError json string string
| BadStatusCode
| OtherError jserror

definition setErrorHandler :: "appError \<Rightarrow> request \<Rightarrow> reply" where
  \<open>setErrorHandler error request =
     (case error of
        SchemaValidationError issues \<Rightarrow>
          send 400 (JObj
            [(''error'', JStr ''Response Validation Error''),
             (''message'', JStr (''Request doesn'' @ [CHR 0x27] @ ''t match the schema'')),
             (''statusCode'', JNum 400),
             (''details'', JObj
                [(''issues'', issues),
                 (''method'', JStr (httpMethod request)), (''url'', JStr (url request))])])
      | ResponseSerializationError issues errorMethod errorUrl \<Rightarrow>
          send 500 (JObj
            [(''error'', JStr ''Internal Server Error''),
             (''message'', JStr (''Response doesn'' @ [CHR 0x27] @ ''t match the schema'')),
             (''statusCode'', JNum 500),
             (''details'', JObj
                [(''issues'', issues),
                 (''method'', JStr errorMethod), (''url'', JStr errorUrl)])])
      | BadStatusCode \<Rightarrow> send 500 (JObj [(''ok'', JBool False)])
      | OtherError err \<Rightarrow> \<lparr>statusCode = 500, headers = [], body = ErrorBody err\<rparr>)\<close>

text \<open>
  The route POST /generate-football-schedule as Fastify runs it with the zod validator
  compiler: the body is validated against the route's schema before the handler; a failed
  validation goes to the error handler and the handler is not called.
\<close>

definition postGenerateFootballSchedule ::
  "env \<Rightarrow> string \<Rightarrow> world \<Rightarrow> request \<Rightarrow> rawQuery \<Rightarrow> footballSchedule \<Rightarrow> world \<times> reply" where
  "postGenerateFootballSchedule e sessionId w request rawQ payload =
     (case footballScheduleSchema e payload of
        [] \<Rightarrow> generateFootballSchedule e sessionId w request (querySchema rawQ) payload
      | i # is \<Rightarrow> (w, setErrorHandler (SchemaValidationError (validation e (i # is))) request))"

section \<open>Reading a reply\<close>

text \<open>
  A field of a reply's JSON object; the images or links a reply delivers; and the two
  response modes: inline (\<^verbatim>\<open>images\<close>, or \<^verbatim>\<open>image\<close> on the markup path) and
  download links (\<^verbatim>\<open>downloads\<close>, or \<^verbatim>\<open>download\<close>), both with status 200.
\<close>

definition field :: "string \<Rightarrow> reply \<Rightarrow> json option" where
  "field k r = (case body r of JsonBody (JObj kvs) \<Rightarrow> map_of kvs k | _ \<Rightarrow> None)"


definition strings :: "json \<Rightarrow> string list" where
  "strings j =
     (case j of
        JStr x \<Rightarrow> [x]
      | JObj kvs \<Rightarrow> concat (map (\<lambda>kv. case snd kv of JStr x \<Rightarrow> [x] | _ \<Rightarrow> []) kvs)
      | _ \<Rightarrow> [])"

definition outputs :: "reply \<Rightarrow> string list" where
  "outputs r =
     concat (map (\<lambda>k. case field k r of None \<Rightarrow> [] | Some j \<Rightarrow> strings j)
       [''images'', ''image'', ''downloads'', ''download'', ''downloadLinks''])"





section \<open>Example values\<close>

definition exampleEnv :: env where
  "exampleEnv =
     \<lparr>cwd = ''/app'',
      fetch = (\<lambda>u. if u = ''http://ok.local/logo.png'' then Inr (Response 200 (Inr ''PNG''))
                   else if u = ''http://gone.local/logo.png'' then Inr (Response 404 (Inr ''no''))
                   else if u = ''http://cut.local/logo.png''
                     then Inr (Response 200 (Inl (JsError ''aborted'')))
                   else if u = ''http://text.local/page'' then Inr (Response 200 (Inr ''<html>''))
                   else Inl (JsError ''ECONNREFUSED'')),
      sharpResizePng = (\<lambda>b w h fit. if b = ''PNG'' then Inr (''PNG '' @ showInt w @ ''x'' @ showInt h)
                                   else Inl (JsError ''unsupported image format'')),
      createFootballScheduleImage = (\<lambda>p w h. Inr (''F'' @ showNat w @ ''x'' @ showNat h)),
      createPromotionalImage = (\<lambda>p w h. Inr (''M'' @ showNat w @ ''x'' @ showNat h)),
      createPromotionalImageLegacy = (\<lambda>p w h. Inr (''L'' @ showNat w @ ''x'' @ showNat h)),
      puppeteer = Some (\<lambda>html w h. Inr (''S'' @ showNat w @ ''x'' @ showNat h)),
      toBase64 = (\<lambda>b. b),
      toISOString = showNat,
      extname = (\<lambda>n. ''.jpg''),
      toLowerCase = (\<lambda>n. n),
      toUpperCase = (\<lambda>n. n),
      isUrl = (\<lambda>u. take 7 u = ''http://''),
      numberToString = (\<lambda>x. showInt \<lfloor>x\<rfloor>),
      validation = (\<lambda>is. JArr (map (\<lambda>i. case i of
                       InvalidUrl path \<Rightarrow> JObj [(''code'', JStr ''invalid_string'')]
                     | TooBig path m \<Rightarrow> JObj [(''code'', JStr ''too_big'')]) is))\<rparr>"

definition exampleWorld :: world where
  "exampleWorld = \<lparr>files = Map.empty, timers = [], now = 1000\<rparr>"

definition exampleRequest :: request where
  "exampleRequest =
     \<lparr>xForwardedProto = None, xForwardedHost = None, hostHeader = Some ''api.local'',
      socketEncrypted = False, protocol = ''http'', httpMethod = ''POST'',
      url = ''/api/generate-football-schedule''\<rparr>"

definition exampleJogo :: jogo where
  "exampleJogo =
     \<lparr>timeHome = ''Flamengo'', logoHomeUrl = ''http://ok.local/logo.png'',
      timeAway = ''Chelsea'', logoAwayUrl = ''http://gone.local/logo.png'',
      horario = ''15:00'', canais = None\<rparr>"

definition examplePayload :: footballSchedule where
  "examplePayload =
     \<lparr>logoEmpresaUrl = ''http://ok.local/logo.png'', data = ''20/06/2025'',
      jogos = [exampleJogo], corFundo = None, fundoUrl = None, whatsapp = Some ''85997487096''\<rparr>"


definition maliciousPayload :: footballSchedule where
  "maliciousPayload =
     examplePayload\<lparr>jogos := [exampleJogo\<lparr>horario := ''<script>alert(1)</script>''\<rparr>]\<rparr>"

section \<open>Properties of escapeXml\<close>

lemma replaceAll_append:
  "replaceAll c r (xs @ ys) = replaceAll c r xs @ replaceAll c r ys"
  by (induction xs) auto

lemma escapeXml_Nil: "escapeXml [] = []"
  by (simp add: escapeXml_def)

text \<open>
  The five passes together act as one pass: the later passes never touch what the earlier
  ones produced, because no entity contains \<open><\<close>, \<open>>\<close> or a quote.
\<close>

lemma escapeXml_Cons: "escapeXml (x # xs) = entityOf x @ escapeXml xs"
  by (simp add: escapeXml_def entityOf_def replaceAll_append)

lemma escapeXml_append: "escapeXml (xs @ ys) = escapeXml xs @ escapeXml ys"
  by (induction xs) (simp_all add: escapeXml_Nil escapeXml_Cons)

lemma unescapeXml_entityOf: "unescapeXml (entityOf x @ ys) = x # unescapeXml ys"
  by (simp add: entityOf_def)

lemma wellEscaped_entityOf: "wellEscaped (entityOf x @ ys) = wellEscaped ys"
  by (simp add: entityOf_def markupSpecial_def)

lemma unescapeXml_escapeXml: "unescapeXml (escapeXml s) = s"
  by (induction s) (simp_all add: escapeXml_Nil escapeXml_Cons unescapeXml_entityOf)

lemma wellEscaped_escapeXml: "wellEscaped (escapeXml s)"
  by (induction s) (simp_all add: escapeXml_Nil escapeXml_Cons wellEscaped_entityOf)

lemma entityOf_no_delimiter:
  "c \<in> set (entityOf x) \<Longrightarrow> c \<noteq> CHR ''<'' \<and> c \<noteq> CHR ''>'' \<and> c \<noteq> CHR 0x22 \<and> c \<noteq> CHR 0x27"
  by (auto simp: entityOf_def split: if_splits)

lemma escapeXml_no_delimiter:
  "c \<in> set (escapeXml s) \<Longrightarrow> c \<noteq> CHR ''<'' \<and> c \<noteq> CHR ''>'' \<and> c \<noteq> CHR 0x22 \<and> c \<noteq> CHR 0x27"
proof (induction s)
  case Nil
  then show ?case by (simp add: escapeXml_Nil)
next
  case (Cons x xs)
  from Cons.prems have "c \<in> set (entityOf x) \<or> c \<in> set (escapeXml xs)"
    by (simp add: escapeXml_Cons)
  then show ?case
    using entityOf_no_delimiter Cons.IH by blast
qed

text \<open>
  C9. For every string \<open>s\<close>: \<open>escapeXml s\<close> holds none of \<open><\<close>, \<open>>\<close>, \<open>"\<close>, \<open>'\<close>, and
  each of its ampersands starts one of the five entities; the inverse entity substitution
  gives \<open>s\<close> back; and two different strings have different escaped forms.
\<close>

theorem escapeXml_roundtrip:
  "wellEscaped (escapeXml s)
   \<and> CHR ''<'' \<notin> set (escapeXml s) \<and> CHR ''>'' \<notin> set (escapeXml s)
   \<and> CHR 0x22 \<notin> set (escapeXml s) \<and> CHR 0x27 \<notin> set (escapeXml s)
   \<and> unescapeXml (escapeXml s) = s
   \<and> (s \<noteq> t \<longrightarrow> escapeXml s \<noteq> escapeXml t)"
proof -
  have inj: "s \<noteq> t \<longrightarrow> escapeXml s \<noteq> escapeXml t"
  proof
    assume ne: "s \<noteq> t"
    show "escapeXml s \<noteq> escapeXml t"
    proof
      assume "escapeXml s = escapeXml t"
      then have "unescapeXml (escapeXml s) = unescapeXml (escapeXml t)" by simp
      then have "s = t" by (simp add: unescapeXml_escapeXml)
      with ne show False by simp
    qed
  qed
  show ?thesis
    using wellEscaped_escapeXml [of s] escapeXml_no_delimiter [of _ s]
      unescapeXml_escapeXml [of s] inj
    by blast
qed

theorem escapeXml_roundtrip_witness:
  "''<'' \<noteq> ''&lt;''
   \<and> escapeXml ''<'' = ''&lt;'' \<and> escapeXml ''&lt;'' = ''&amp;lt;''
   \<and> escapeXml ''<'' \<noteq> escapeXml ''&lt;''
   \<and> wellEscaped (escapeXml ''<'')
   \<and> unescapeXml (escapeXml ''<'') = ''<''"
  using escapeXml_roundtrip [of "''<''" "''&lt;''"]
  by (simp add: escapeXml_def)

section \<open>Properties of paths\<close>



























section \<open>Properties of saving and of the handlers\<close>




lemma saveImageAndGetLinkLegacy_files:
  "files (fst (saveImageAndGetLinkLegacy e w b n r)) = (files w)(path_join (UPLOADS_DIR e) n \<mapsto> b)"
  by (simp add: saveImageAndGetLinkLegacy_def Let_def fs_writeFile_def setTimeout_def)



lemma saveImageAndGetLink_link: "snd (saveImageAndGetLink e w b n r) = downloadUrl r n"
  by (simp add: saveImageAndGetLink_def Let_def)




lemma generateFootballSchedule_file_reply:
  assumes "footballImages e p = Inr imgs" and "\<not> base64 q"
  shows "snd (generateFootballSchedule e sid w r q p) =
           send 200 (JObj
              [(''success'', JBool True),
               (''downloads'', formatsJson
                  \<lparr>landscape = downloadUrl r (''football_'' @ sid @ ''_landscape.jpg''),
                   portrait = downloadUrl r (''football_'' @ sid @ ''_portrait.jpg''),
                   square = downloadUrl r (''football_'' @ sid @ ''_square.jpg'')\<rparr>),
               (''message'',
                JStr ''Football schedule images generated successfully (download links)''),
               (''expiresIn'', JStr ''1 hour'')])"
  using assms
  by (simp add: generateFootballSchedule_def Let_def split_beta saveImageAndGetLink_link)

lemma generateFootballSchedule_failed:
  assumes "footballImages e p = Inl err"
  shows "generateFootballSchedule e sid w r q p =
           (w, send 500 (JObj
                [(''success'', JBool False), (''message'', JStr (errorMessage err)),
                 (''images'', formatsJson \<lparr>landscape = [], portrait = [], square = []\<rparr>)]))"
  using assms by (simp add: generateFootballSchedule_def)











lemma generateImages_failed:
  assumes "movieImages e p = Inl err"
  shows "generateImages e sid w r q p =
           (w, send 500 (JObj
                [(''success'', JBool False), (''message'', JStr (errorMessage err)),
                 (''images'', formatsJson \<lparr>landscape = [], portrait = [], square = []\<rparr>)]))"
  using assms by (simp add: generateImages_def)









section \<open>The response modes, the delivered bytes, the formats and the expiry\<close>

lemma field_send: "field k (send c (JObj kvs)) = map_of kvs k"
  by (simp add: field_def send_def)

lemma statusCode_send: "statusCode (send c j) = c"
  by (simp add: send_def)













lemma outputs_send_downloads:
  "outputs (send c (JObj [(''success'', s), (''downloads'', formatsJson f), (''message'', m),
                            (''expiresIn'', x)]))
     = [landscape f, portrait f, square f]"
  by (simp add: outputs_def field_send formatsJson_def strings_def)









section \<open>Downloads, path resolution and validation\<close>














lemma footballScheduleSchema_too_big:
  "length (jogos p) > 5 \<Longrightarrow> TooBig [''jogos''] 5 \<in> set (footballScheduleSchema e p)"
  by (simp add: footballScheduleSchema_def)

lemma urlIssue_env:
  "urlIssue (e\<lparr>fetch := f, sharpResizePng := s, createFootballScheduleImage := c, toBase64 := t\<rparr>)
     = urlIssue e"
  by (simp add: urlIssue_def fun_eq_iff)

lemma canalIssues_env:
  "canalIssues (e\<lparr>fetch := f, sharpResizePng := s, createFootballScheduleImage := c, toBase64 := t\<rparr>)
     = canalIssues e"
  by (simp add: canalIssues_def fun_eq_iff urlIssue_env)

lemma jogoIssues_env:
  "jogoIssues (e\<lparr>fetch := f, sharpResizePng := s, createFootballScheduleImage := c, toBase64 := t\<rparr>)
     = jogoIssues e"
  by (simp add: jogoIssues_def fun_eq_iff urlIssue_env canalIssues_env cong: option.case_cong)

lemma footballScheduleSchema_env:
  "footballScheduleSchema
     (e\<lparr>fetch := f, sharpResizePng := s, createFootballScheduleImage := c, toBase64 := t\<rparr>) p
   = footballScheduleSchema e p"
  by (simp add: footballScheduleSchema_def urlIssue_env jogoIssues_env cong: option.case_cong)

lemma postGenerateFootballSchedule_invalid:
  assumes "footballScheduleSchema e p \<noteq> []"
  shows "postGenerateFootballSchedule e sid w r rq p
           = (w, setErrorHandler (SchemaValidationError (validation e (footballScheduleSchema e p))) r)"
  using assms by (simp add: postGenerateFootballSchedule_def split: list.splits)

lemma statusCode_validation_error:
  "statusCode (setErrorHandler (SchemaValidationError is) r) = 400"
  by (simp add: setErrorHandler_def send_def)

text \<open>
  C3. For every body whose \<^verbatim>\<open>jogos\<close> list has more than 5 entries, POST
  /generate-football-schedule is answered 400 by the schema validation (the issue
  \<^verbatim>\<open>too_big\<close> on \<^verbatim>\<open>jogos\<close>), the world is unchanged (no file is written, no timer is
  set), and the reply is the same whatever rendering, fetching, resizing and encoding would
  have returned: the handler is not entered.
\<close>

theorem too_many_games_rejected_before_handler:
  assumes "length (jogos p) > 5"
  shows
    "postGenerateFootballSchedule e sid w r rq p
       = (w, setErrorHandler (SchemaValidationError (validation e (footballScheduleSchema e p))) r)
   \<and> statusCode (snd (postGenerateFootballSchedule e sid w r rq p)) = 400
   \<and> TooBig [''jogos''] 5 \<in> set (footballScheduleSchema e p)
   \<and> fst (postGenerateFootballSchedule e sid w r rq p) = w
   \<and> postGenerateFootballSchedule
        (e\<lparr>fetch := f, sharpResizePng := s, createFootballScheduleImage := c, toBase64 := t\<rparr>)
        sid w r rq p
       = postGenerateFootballSchedule e sid w r rq p"
proof -
  have big: "TooBig [''jogos''] 5 \<in> set (footballScheduleSchema e p)"
    by (rule footballScheduleSchema_too_big [OF assms])
  then have ne: "footballScheduleSchema e p \<noteq> []" by auto
  have ne': "footballScheduleSchema
     (e\<lparr>fetch := f, sharpResizePng := s, createFootballScheduleImage := c, toBase64 := t\<rparr>) p \<noteq> []"
    using ne by (simp add: footballScheduleSchema_env)
  show ?thesis
    using big
    by (simp add: postGenerateFootballSchedule_invalid [OF ne]
        postGenerateFootballSchedule_invalid [OF ne'] footballScheduleSchema_env
        statusCode_validation_error)
qed

theorem too_many_games_rejected_before_handler_witness:
  "length (jogos (examplePayload\<lparr>jogos := replicate 6 exampleJogo\<rparr>)) > 5
   \<and> statusCode (snd (postGenerateFootballSchedule exampleEnv ''3f2a-91'' exampleWorld
        exampleRequest \<lparr>base64Param = None, fileParam = None\<rparr>
        (examplePayload\<lparr>jogos := replicate 6 exampleJogo\<rparr>))) = 400
   \<and> fst (postGenerateFootballSchedule exampleEnv ''3f2a-91'' exampleWorld
        exampleRequest \<lparr>base64Param = None, fileParam = None\<rparr>
        (examplePayload\<lparr>jogos := replicate 6 exampleJogo\<rparr>)) = exampleWorld
   \<and> statusCode (snd (postGenerateFootballSchedule exampleEnv ''3f2a-91'' exampleWorld
        exampleRequest \<lparr>base64Param = None, fileParam = None\<rparr>
        (examplePayload\<lparr>jogos := replicate 5 exampleJogo\<rparr>))) = 200"
proof -
  have h: "length (jogos (examplePayload\<lparr>jogos := replicate 6 exampleJogo\<rparr>)) > 5"
    by simp
  have five: "footballScheduleSchema exampleEnv (examplePayload\<lparr>jogos := replicate 5 exampleJogo\<rparr>) = []"
    by (simp add: footballScheduleSchema_def jogoIssues_def canalIssues_def urlIssue_def
        exampleEnv_def examplePayload_def exampleJogo_def numeral_eq_Suc)
  have img: "footballImages exampleEnv p =
      Inr \<lparr>landscape = ''F1920x1080'', portrait = ''F1080x1920'', square = ''F1080x1080''\<rparr>" for p
    by (simp add: footballImages_def promiseAll3_def exampleEnv_def showNat.simps digitChar_def)
  have ok: "statusCode (snd (postGenerateFootballSchedule exampleEnv ''3f2a-91'' exampleWorld
        exampleRequest \<lparr>base64Param = None, fileParam = None\<rparr>
        (examplePayload\<lparr>jogos := replicate 5 exampleJogo\<rparr>))) = 200"
    by (simp add: postGenerateFootballSchedule_def five querySchema_def
        generateFootballSchedule_file_reply [OF img] statusCode_send)
  note T = too_many_games_rejected_before_handler [OF h, of exampleEnv "''3f2a-91''" exampleWorld
        exampleRequest "\<lparr>base64Param = None, fileParam = None\<rparr>"]
  show ?thesis
    by (intro conjI h ok T [THEN conjunct2, THEN conjunct1]
        T [THEN conjunct2, THEN conjunct2, THEN conjunct2, THEN conjunct1])
qed

section \<open>The asset fetch boundary\<close>

lemma createPlaceholderImage_shape:
  "prefix (''<svg width=\"'' @ showInt w @ ''\" height=\"'' @ showInt h @ ''\"'')
     (createPlaceholderImage w h c t)
   \<and> sublist (''<rect width=\"100%\" height=\"100%\" fill=\"'' @ c @ ''\"/>'')
       (createPlaceholderImage w h c t)
   \<and> sublist (''>'' @ t @ ''</text>'') (createPlaceholderImage w h c t)"
proof (intro conjI)
  show "prefix (''<svg width=\"'' @ showInt w @ ''\" height=\"'' @ showInt h @ ''\"'')
     (createPlaceholderImage w h c t)"
    by (simp add: createPlaceholderImage_def)
  have "createPlaceholderImage w h c t =
      (''<svg width=\"'' @ showInt w @ ''\" height=\"'' @ showInt h @
       ''\" xmlns=\"http://www.w3.org/2000/svg\">'' @ nl 2)
      @ (''<rect width=\"100%\" height=\"100%\" fill=\"'' @ c @ ''\"/>'')
      @ (nl 2 @
     ''<text x=\"50%\" y=\"50%\" font-family=\"Arial\" font-size=\"20\" fill=\"white\" text-anchor=\"middle\" dy=\".3em\">'' @
     t @ ''</text>'' @ nl 1 @ ''</svg>'')"
    by (simp add: createPlaceholderImage_def)
  then show "sublist (''<rect width=\"100%\" height=\"100%\" fill=\"'' @ c @ ''\"/>'')
       (createPlaceholderImage w h c t)"
    by (metis sublist_appendI)
  have "createPlaceholderImage w h c t =
      (''<svg width=\"'' @ showInt w @ ''\" height=\"'' @ showInt h @
       ''\" xmlns=\"http://www.w3.org/2000/svg\">'' @ nl 2 @
       ''<rect width=\"100%\" height=\"100%\" fill=\"'' @ c @ ''\"/>'' @ nl 2 @
     ''<text x=\"50%\" y=\"50%\" font-family=\"Arial\" font-size=\"20\" fill=\"white\" text-anchor=\"middle\" dy=\".3em\"'')
      @ (''>'' @ t @ ''</text>'')
      @ (nl 1 @ ''</svg>'')"
    by (simp add: createPlaceholderImage_def)
  then show "sublist (''>'' @ t @ ''</text>'') (createPlaceholderImage w h c t)"
    by (metis sublist_appendI)
qed

lemma downloadImageWithFallback_failed:
  "downloadAndResize e u w h = Inl err
   \<Longrightarrow> downloadImageWithFallback e u w h t = Inr (createPlaceholderImage w h ''#666666'' t)"
  by (simp add: downloadImageWithFallback_def)

lemma downloadImageWithFallback_total:
  "\<exists>b. downloadImageWithFallback e u w h t = Inr b"
  by (simp add: downloadImageWithFallback_def split: sum.splits)

text \<open>
  C1. For every URL and target dimensions, \<^verbatim>\<open>downloadImageWithFallback\<close> resolves: it never
  rejects. When the fetch fails, the status is not 2xx, the body cannot be read or sharp
  cannot decode and resize it, the result is the generated placeholder: an SVG of the
  requested width and height with a flat \<^verbatim>\<open>#666666\<close> fill and the fallback text as label.
  When all succeed, the result is the fetched image resized (fit cover) to the requested
  dimensions.
\<close>

theorem downloadImageWithFallback_absorbs_failures:
  "(\<exists>b. downloadImageWithFallback e u w h t = Inr b)
   \<and> (fetch e u = Inl err \<longrightarrow>
        downloadImageWithFallback e u w h t = Inr (createPlaceholderImage w h ''#666666'' t))
   \<and> (fetch e u = Inr resp \<and> \<not> ok resp \<longrightarrow>
        downloadImageWithFallback e u w h t = Inr (createPlaceholderImage w h ''#666666'' t))
   \<and> (fetch e u = Inr resp \<and> ok resp \<and> responseBuffer resp = Inl err \<longrightarrow>
        downloadImageWithFallback e u w h t = Inr (createPlaceholderImage w h ''#666666'' t))
   \<and> (fetch e u = Inr resp \<and> ok resp \<and> responseBuffer resp = Inr raw
        \<and> sharpResizePng e raw w h ''cover'' = Inl err \<longrightarrow>
        downloadImageWithFallback e u w h t = Inr (createPlaceholderImage w h ''#666666'' t))
   \<and> (fetch e u = Inr resp \<and> ok resp \<and> responseBuffer resp = Inr raw
        \<and> sharpResizePng e raw w h ''cover'' = Inr img \<longrightarrow>
        downloadImageWithFallback e u w h t = Inr img)
   \<and> prefix (''<svg width=\"'' @ showInt w @ ''\" height=\"'' @ showInt h @ ''\"'')
        (createPlaceholderImage w h ''#666666'' t)
   \<and> sublist ''<rect width=\"100%\" height=\"100%\" fill=\"#666666\"/>''
        (createPlaceholderImage w h ''#666666'' t)
   \<and> sublist (''>'' @ t @ ''</text>'') (createPlaceholderImage w h ''#666666'' t)"
proof -
  have shape:
    "prefix (''<svg width=\"'' @ showInt w @ ''\" height=\"'' @ showInt h @ ''\"'')
        (createPlaceholderImage w h ''#666666'' t)"
    "sublist ''<rect width=\"100%\" height=\"100%\" fill=\"#666666\"/>''
        (createPlaceholderImage w h ''#666666'' t)"
    "sublist (''>'' @ t @ ''</text>'') (createPlaceholderImage w h ''#666666'' t)"
    using createPlaceholderImage_shape [of w h "''#666666''" t] by simp_all
  show ?thesis
    using shape downloadImageWithFallback_total [of e u w h t]
    by (simp add: downloadImageWithFallback_def downloadAndResize_def)
qed


theorem downloadImageWithFallback_absorbs_failures_witness:
  "fetch exampleEnv ''http://down.local/logo.png'' = Inl (JsError ''ECONNREFUSED'')
   \<and> downloadImageWithFallback exampleEnv ''http://down.local/logo.png'' 100 100 ''FLA''
       = Inr (createPlaceholderImage 100 100 ''#666666'' ''FLA'')
   \<and> (fetch exampleEnv ''http://gone.local/logo.png'' = Inr (Response 404 (Inr ''no''))
        \<and> \<not> ok (Response 404 (Inr ''no'')))
   \<and> downloadImageWithFallback exampleEnv ''http://gone.local/logo.png'' 100 100 ''FLA''
       = Inr (createPlaceholderImage 100 100 ''#666666'' ''FLA'')
   \<and> (fetch exampleEnv ''http://cut.local/logo.png'' = Inr (Response 200 (Inl (JsError ''aborted'')))
        \<and> ok (Response 200 (Inl (JsError ''aborted'')))
        \<and> responseBuffer (Response 200 (Inl (JsError ''aborted''))) = Inl (JsError ''aborted''))
   \<and> downloadImageWithFallback exampleEnv ''http://cut.local/logo.png'' 100 100 ''FLA''
       = Inr (createPlaceholderImage 100 100 ''#666666'' ''FLA'')
   \<and> (fetch exampleEnv ''http://text.local/page'' = Inr (Response 200 (Inr ''<html>''))
        \<and> ok (Response 200 (Inr ''<html>''))
        \<and> responseBuffer (Response 200 (Inr ''<html>'')) = Inr ''<html>''
        \<and> sharpResizePng exampleEnv ''<html>'' 100 100 ''cover''
            = Inl (JsError ''unsupported image format''))
   \<and> downloadImageWithFallback exampleEnv ''http://text.local/page'' 100 100 ''FLA''
       = Inr (createPlaceholderImage 100 100 ''#666666'' ''FLA'')
   \<and> (fetch exampleEnv ''http://ok.local/logo.png'' = Inr (Response 200 (Inr ''PNG''))
        \<and> ok (Response 200 (Inr ''PNG''))
        \<and> responseBuffer (Response 200 (Inr ''PNG'')) = Inr ''PNG''
        \<and> sharpResizePng exampleEnv ''PNG'' 100 100 ''cover'' = Inr ''PNG 100x100'')
   \<and> downloadImageWithFallback exampleEnv ''http://ok.local/logo.png'' 100 100 ''FLA''
       = Inr ''PNG 100x100''"
proof -
  note T = downloadImageWithFallback_absorbs_failures
  have h1: "fetch exampleEnv ''http://down.local/logo.png'' = Inl (JsError ''ECONNREFUSED'')"
    by (simp add: exampleEnv_def)
  have h2: "fetch exampleEnv ''http://gone.local/logo.png'' = Inr (Response 404 (Inr ''no''))
        \<and> \<not> ok (Response 404 (Inr ''no''))"
    by (simp add: exampleEnv_def ok_def)
  have h3: "fetch exampleEnv ''http://cut.local/logo.png'' = Inr (Response 200 (Inl (JsError ''aborted'')))
        \<and> ok (Response 200 (Inl (JsError ''aborted'')))
        \<and> responseBuffer (Response 200 (Inl (JsError ''aborted''))) = Inl (JsError ''aborted'')"
    by (simp add: exampleEnv_def ok_def)
  have h4: "fetch exampleEnv ''http://text.local/page'' = Inr (Response 200 (Inr ''<html>''))
        \<and> ok (Response 200 (Inr ''<html>''))
        \<and> responseBuffer (Response 200 (Inr ''<html>'')) = Inr ''<html>''
        \<and> sharpResizePng exampleEnv ''<html>'' 100 100 ''cover''
            = Inl (JsError ''unsupported image format'')"
    by (simp add: exampleEnv_def ok_def)
  have h5: "fetch exampleEnv ''http://ok.local/logo.png'' = Inr (Response 200 (Inr ''PNG''))
        \<and> ok (Response 200 (Inr ''PNG''))
        \<and> responseBuffer (Response 200 (Inr ''PNG'')) = Inr ''PNG''
        \<and> sharpResizePng exampleEnv ''PNG'' 100 100 ''cover'' = Inr ''PNG 100x100''"
    by (simp add: exampleEnv_def ok_def showInt_def showNat.simps digitChar_def)
  show ?thesis
    by (intro conjI h1 h2 h3 h4 h5
        T [THEN conjunct2, THEN conjunct1, THEN mp, OF h1]
        T [THEN conjunct2, THEN conjunct2, THEN conjunct1, THEN mp, OF h2]
        T [THEN conjunct2, THEN conjunct2, THEN conjunct2, THEN conjunct1, THEN mp, OF h3]
        T [THEN conjunct2, THEN conjunct2, THEN conjunct2, THEN conjunct2, THEN conjunct1,
           THEN mp, OF h4]
        T [THEN conjunct2, THEN conjunct2, THEN conjunct2, THEN conjunct2, THEN conjunct2,
           THEN conjunct1, THEN mp, OF h5])
qed

section \<open>User text in the overlay and in the markup document\<close>

lemma delimiters_append: "delimiters (a @ b) = delimiters a @ delimiters b"
  by (simp add: delimiters_def)

lemma delimiters_Nil: "delimiters [] = []"
  by (simp add: delimiters_def)

lemma delimiters_if:
  "delimiters (if c then a else b) = (if c then delimiters a else delimiters b)"
  by simp

lemma delimiters_escapeXml: "delimiters (escapeXml s) = []"
  unfolding delimiters_def filter_empty_conv delimiter_def
  using escapeXml_no_delimiter by blast

lemma createTimeDisplay_delimiters:
  "delimiters (createTimeDisplay e cx gy h tf) = delimiters (createTimeDisplay e cx gy [] tf)"
  by (simp only: createTimeDisplay_def delimiters_append delimiters_escapeXml)

lemma createTeamDisplay_delimiters:
  "delimiters (createTeamDisplay e n x y tf a) = delimiters (createTeamDisplay e [] x y tf a)"
  by (simp only: createTeamDisplay_def Let_def delimiters_append delimiters_escapeXml)

lemma channelTexts_delimiters:
  "delimiters (channelTexts e sx gy cf i cs) = delimiters (channelTexts e sx gy cf i (map blankCanal cs))"
  by (induction cs arbitrary: i)
     (simp_all only: channelTexts.simps list.map Let_def delimiters_append delimiters_escapeXml
        blankCanal_def canal.simps)

lemma createChannelDisplay_delimiters:
  "delimiters (createChannelDisplay e cx gy cs cf)
     = delimiters (createChannelDisplay e cx gy (map blankCanal cs) cf)"
proof -
  have ct: "delimiters (channelTexts e sx gy cf 0 (take k (map blankCanal cs)))
          = delimiters (channelTexts e sx gy cf 0 (take k cs))" for sx k
    using channelTexts_delimiters [of e sx gy cf 0 "take k cs"] by (simp add: take_map)
  show ?thesis
    by (simp only: createChannelDisplay_def Let_def delimiters_append delimiters_if
        length_map ct cong: if_cong)
qed

lemma createHeader_delimiters:
  "delimiters (createHeader e w d tf df tm) = delimiters (createHeader e w [] tf df tm)"
  by (simp only: createHeader_def delimiters_append delimiters_escapeXml)

lemma createContactSection_delimiters:
  "delimiters (createContactSection e w cy wa cf) = delimiters (createContactSection e w cy x cf)"
  by (simp only: createContactSection_def delimiters_append delimiters_escapeXml)

lemma createGameSection_delimiters:
  "delimiters (createGameSection e w gy i j tf tmf cf)
     = delimiters (createGameSection e w gy i (blankJogo j) tf tmf cf)"
  using createTimeDisplay_delimiters [of e _ gy "horario j" tmf]
    createTeamDisplay_delimiters [of e "timeHome j" _ _ tf Left]
    createTeamDisplay_delimiters [of e "timeAway j" _ _ tf Right]
    createChannelDisplay_delimiters [of e _ gy _ cf]
  by (simp add: createGameSection_def Let_def delimiters_append blankJogo_def
      split: option.splits)

lemma gameSections_delimiters:
  "delimiters (gameSections e w tf tmf cf i js)
     = delimiters (gameSections e w tf tmf cf i (map blankJogo js))"
  by (induction js arbitrary: i)
     (simp_all add: Let_def delimiters_append createGameSection_delimiters [symmetric])

lemma truthy_blankText: "truthy (blankText v) = truthy v"
  by (simp add: blankText_def truthy_def)

lemma createFootballScheduleOverlay_delimiters:
  "delimiters (createFootballScheduleOverlay e w h d js wa)
     = delimiters (createFootballScheduleOverlay e w h [] (map blankJogo js) (blankText wa))"
proof -
  have c: "delimiters (if truthy wa then createContactSection e w cy (printed wa) cf else [])
         = delimiters (if truthy (blankText wa)
                       then createContactSection e w cy (printed (blankText wa)) cf else [])"
    for cy cf
    using createContactSection_delimiters [of e w cy "printed wa" cf "printed (blankText wa)"]
    by (simp add: truthy_blankText)
  show ?thesis
    by (simp only: createFootballScheduleOverlay_def Let_def delimiters_append length_map c
        createHeader_delimiters [of e w d]
        gameSections_delimiters [of e w _ _ _ 0 js])
qed

lemma sublist_here: "sublist xs (xs @ ss)"
  using sublist_appendI [of xs "[]" ss] by simp

lemma sublist_skip: "sublist xs ys \<Longrightarrow> sublist xs (ps @ ys)"
  by (auto simp: sublist_def) (metis append.assoc)

lemma sublist_keep: "sublist xs ys \<Longrightarrow> sublist xs (ys @ ss)"
  by (auto simp: sublist_def) (metis append.assoc)

lemma gameHTML_contains_horario: "sublist (horario j) (gameHTML e n i j)"
  unfolding gameHTML_def
  by (rule sublist_here | rule sublist_skip)+

lemma gamesHTMLFrom_contains_horario:
  "j \<in> set js \<Longrightarrow> sublist (horario j) (gamesHTMLFrom e n i js)"
proof (induction js arbitrary: i)
  case Nil
  then show ?case by simp
next
  case (Cons a js)
  show ?case
  proof (cases "j = a")
    case True
    then show ?thesis
      by (simp add: gameHTML_contains_horario sublist_keep)
  next
    case False
    with Cons.prems have "j \<in> set js" by simp
    then have "sublist (horario j) (gamesHTMLFrom e n (i + 1) js)"
      by (rule Cons.IH)
    then show ?thesis
      by (simp add: sublist_skip)
  qed
qed

lemma generateHTML_contains_horario:
  assumes "j \<in> set (jogos d)"
  shows "sublist (horario j) (generateHTML e cb ca d)"
proof -
  have g: "sublist (horario j) (gamesHTMLFrom e (length (jogos d)) 0 (jogos d))"
    by (rule gamesHTMLFrom_contains_horario [OF assms])
  show ?thesis
    unfolding generateHTML_def Let_def
    by (rule sublist_keep [OF g] | rule sublist_skip)+
qed


lemma createTimeDisplay_contains: "sublist (escapeXml h) (createTimeDisplay e cx gy h tf)"
  unfolding createTimeDisplay_def
  by (rule sublist_here | rule sublist_skip)+

lemma createGameSection_contains_horario:
  "sublist (escapeXml (horario j)) (createGameSection e w gy i j tf tmf cf)"
  unfolding createGameSection_def Let_def
  by (rule sublist_skip, rule sublist_keep, rule createTimeDisplay_contains)

lemma gameSections_contains_horario:
  "j \<in> set js \<Longrightarrow> sublist (escapeXml (horario j)) (gameSections e w tf tmf cf i js)"
proof (induction js arbitrary: i)
  case Nil
  then show ?case by simp
next
  case (Cons a js)
  show ?case
  proof (cases "j = a")
    case True
    then show ?thesis
      by (simp add: Let_def createGameSection_contains_horario sublist_keep)
  next
    case False
    with Cons.prems have "j \<in> set js" by simp
    then have "sublist (escapeXml (horario j)) (gameSections e w tf tmf cf (i + 1) js)"
      by (rule Cons.IH)
    then show ?thesis
      by (simp add: sublist_skip)
  qed
qed

lemma createFootballScheduleOverlay_contains_horario:
  assumes "j \<in> set js"
  shows "sublist (escapeXml (horario j)) (createFootballScheduleOverlay e w h d js wa)"
proof -
  have g: "sublist (escapeXml (horario j)) (gameSections e w tf tmf cf 0 js)" for tf tmf cf
    by (rule gameSections_contains_horario [OF assms])
  show ?thesis
    unfolding createFootballScheduleOverlay_def Let_def
    by (rule sublist_keep [OF g] | rule sublist_skip)+
qed

text \<open>
  C4, at a request whose \<^verbatim>\<open>horario\<close> is \<^verbatim>\<open><script>alert(1)</script>\<close>. The markup
  document of \<^verbatim>\<open>generateHTML\<close> holds that text verbatim, which is not in escaped form.
  The SVG overlay of the same request holds it escaped, and its markup delimiters (\<open><\<close>,
  \<open>>\<close> and the quotes) are those of the request with its text fields blanked: there the
  user's text adds no markup.
\<close>

theorem generateHTML_embeds_raw_text:
  "sublist ''<script>alert(1)</script>'' (generateHTML e cssBefore cssAfter maliciousPayload)
   \<and> \<not> wellEscaped ''<script>alert(1)</script>''
   \<and> escapeXml ''<script>alert(1)</script>'' = ''&lt;script&gt;alert(1)&lt;/script&gt;''
   \<and> sublist ''&lt;script&gt;alert(1)&lt;/script&gt;''
         (createFootballScheduleOverlay e w h (data maliciousPayload) (jogos maliciousPayload)
            (whatsapp maliciousPayload))
   \<and> delimiters
         (createFootballScheduleOverlay e w h (data maliciousPayload) (jogos maliciousPayload)
            (whatsapp maliciousPayload))
       = delimiters
           (createFootballScheduleOverlay e w h [] (map blankJogo (jogos maliciousPayload))
              (blankText (whatsapp maliciousPayload)))"
proof -
  let ?j = "exampleJogo\<lparr>horario := ''<script>alert(1)</script>''\<rparr>"
  have mem: "?j \<in> set (jogos maliciousPayload)"
    by (simp add: maliciousPayload_def)
  have esc: "escapeXml ''<script>alert(1)</script>'' = ''&lt;script&gt;alert(1)&lt;/script&gt;''"
    by (simp add: escapeXml_def)
  have raw: "sublist (horario ?j) (generateHTML e cssBefore cssAfter maliciousPayload)"
    by (rule generateHTML_contains_horario [OF mem])
  have svg: "sublist (escapeXml (horario ?j))
         (createFootballScheduleOverlay e w h (data maliciousPayload) (jogos maliciousPayload)
            (whatsapp maliciousPayload))"
    by (rule createFootballScheduleOverlay_contains_horario [OF mem])
  have bad: "\<not> wellEscaped ''<script>alert(1)</script>''"
    by (simp add: markupSpecial_def)
  show ?thesis
    using raw svg bad esc createFootballScheduleOverlay_delimiters
    by simp
qed

end
